theory Spec2Isabelle
  imports Main
begin

section \<open>JavaScript strings as sequences of UTF-16 code units\<close>

text \<open>
  The scripts are JavaScript: \<open>length\<close>, \<open>slice\<close>, \<open>split\<close>, \<open>includes\<close> and a
  regular expression without the \<open>u\<close> flag all work on UTF-16 code units. A string is
  therefore a list of code units. A hanzi of the Basic Multilingual Plane is one code unit,
  an emoji is a surrogate pair (two code units).
\<close>

type_synonym codeunit = nat
type_synonym jstring = "codeunit list"

definition js :: "string \<Rightarrow> jstring" where
  "js s = map of_char s"

text \<open>\<open>String.prototype.split\<close> with a separator of one code unit.\<close>

fun split :: "jstring \<Rightarrow> codeunit \<Rightarrow> jstring list" where
  "split [] sep = [[]]"
| "split (c # cs) sep =
     (if c = sep then [] # split cs sep
      else (case split cs sep of [] \<Rightarrow> [[c]] | p # ps \<Rightarrow> (c # p) # ps))"

text \<open>
  The code units that \<open>trim\<close> strips and that \<open>\s\<close> matches: ECMAScript's WhiteSpace
  and LineTerminator.
\<close>

definition isLineTerminator :: "codeunit \<Rightarrow> bool" where
  "isLineTerminator c \<longleftrightarrow> c \<in> set [10, 13, 8232, 8233]"

definition isWhiteSpace :: "codeunit \<Rightarrow> bool" where
  "isWhiteSpace c \<longleftrightarrow>
     c \<in> set [9, 10, 11, 12, 13, 32, 160, 5760, 8232, 8233, 8239, 8287, 12288, 65279]
     \<or> (8192 \<le> c \<and> c \<le> 8202)"

definition trim :: "jstring \<Rightarrow> jstring" where
  "trim s = rev (dropWhile isWhiteSpace (rev (dropWhile isWhiteSpace s)))"

fun startsWith :: "jstring \<Rightarrow> jstring \<Rightarrow> bool" where
  "startsWith s [] = True"
| "startsWith [] (p # ps) = False"
| "startsWith (c # cs) (p # ps) = (c = p \<and> startsWith cs ps)"

text \<open>\<open>String.prototype.includes\<close>, and an unanchored literal pattern under \<open>test\<close>.\<close>

fun includesStr :: "jstring \<Rightarrow> jstring \<Rightarrow> bool" where
  "includesStr [] needle = (needle = [])"
| "includesStr (c # cs) needle = (startsWith (c # cs) needle \<or> includesStr cs needle)"

text \<open>
  \<open>toLowerCase\<close>. The two searches that follow it look for ASCII needles, so what matters
  is which code units are mapped to ASCII ones: the letters A to Z, the Kelvin sign
  (U+212A, mapped to k) and the dotted capital I (U+0130, mapped to i followed by U+0307).
  Every other cased code unit is mapped to a code unit beyond ASCII and is left as it is
  here.
\<close>

definition toLowerCaseUnit :: "codeunit \<Rightarrow> jstring" where
  "toLowerCaseUnit c =
     (if 65 \<le> c \<and> c \<le> 90 then [c + 32]
      else if c = 8490 then [107]
      else if c = 304 then [105, 775]
      else [c])"

definition toLowerCase :: "jstring \<Rightarrow> jstring" where
  "toLowerCase s = concat (map toLowerCaseUnit s)"

text \<open>Reading an array element that may be absent (\<open>undefined\<close> is \<open>None\<close>).\<close>

definition nthOpt :: "'a list \<Rightarrow> nat \<Rightarrow> 'a option" where
  "nthOpt xs i = (if i < length xs then Some (xs ! i) else None)"

text \<open>\<open>RegExp.prototype.test\<close> converts its argument to a string.\<close>

definition toStringArg :: "jstring option \<Rightarrow> jstring" where
  "toStringArg v = (case v of None \<Rightarrow> js ''undefined'' | Some s \<Rightarrow> s)"

subsection \<open>Literals of the scripts\<close>

definition colon :: codeunit where "colon = 58"
definition bar :: codeunit where "bar = 124"
definition comma :: codeunit where "comma = 44"
definition slash :: codeunit where "slash = 47"
definition plus :: codeunit where "plus = 43"

definition noPronunciation :: jstring where
  "noPronunciation = js ''(no pronunciation)''"

text \<open>The emoji of the audit script, as the surrogate pairs the source file holds.\<close>

definition tongue :: jstring where "tongue = [55357, 56389]"
definition breakdownMarker :: jstring where "breakdownMarker = [55358, 56809]"
definition noteMarker :: jstring where "noteMarker = [55357, 56524]"
definition movieSetTag :: jstring where "movieSetTag = [35, 55356, 57260]"
definition wheelTag :: jstring where "wheelTag = [35, 55356, 57249]"
definition pouringRainTag :: jstring where "pouringRainTag = [35, 55356, 57127, 65039]"
definition oldWestTag :: jstring where "oldWestTag = [35, 55358, 56608]"
definition sciFiTag :: jstring where "sciFiTag = [35, 55357, 56445]"
definition policeDramaTag :: jstring where "policeDramaTag = [35, 55357, 56430]"

text \<open>The alternatives of the pattern \<open>pouringRainSyllable\<close>; 252 is the letter u with diaeresis.\<close>

definition pouringRainSyllables :: "jstring list" where
  "pouringRainSyllables =
     [js ''ju'', js ''juan'', js ''jun'', [108, 252], [108, 252, 101], [110, 252],
      [110, 252, 101], js ''qu'', js ''quan'', js ''que'', js ''qun'', js ''xu'',
      js ''xuan'', js ''xue'', js ''xun'', js ''yu'']"

definition pouringRainSyllable :: "jstring \<Rightarrow> bool" where
  "pouringRainSyllable s \<longleftrightarrow> s \<in> set pouringRainSyllables"

section \<open>The outline tree, the diagnostics and the story record\<close>

text \<open>
  A node of the parsed outline: its \<open>text\<close> attribute and its child list \<open>outline\<close>,
  which the XML parser leaves out (\<open>undefined\<close>, here \<open>None\<close>) for a node without
  children. Every node is taken to have a \<open>text\<close> attribute.
\<close>

datatype node = Node (nodeText: jstring) (outline: "node list option")

datatype rule =
    SingleCharacter | CountMatch | SyllableMatch
  | MultiplePinyinRequireTag | TagRequiresMultiplePinyin
  | MustHaveChildren | GrandChildNodes | MultipleBreakdowns | BreakdownNotFirst
  | WheelNoBreakdown | BreakdownRequired | BreakdownFormat | StoryTypeExclusive
  | AtLeastOneStoryLine | WheelMentionsWheel | MovieSetFourLines
  | OldWestPrefix | SciFiPrefix | PoliceDramaPrefix
  | PouringRainEligible | PouringRainRequired | PouringRainMentioned

text \<open>
  One constructor for each kind of \<open>console.error\<close> call, with the values the message
  interpolates: the path, and the hanzi, the first five code units of the header or the
  offending token.
\<close>

datatype message =
    FirstPronunciationError
  | PronunciationElementError jstring
  | HeaderError jstring jstring
  | PinyinError jstring jstring jstring
  | EntryError rule jstring jstring

text \<open>
  What a validation function does: return true, print one message and return false, or
  raise a \<open>TypeError\<close> by reading a property of \<open>undefined\<close>.
\<close>

datatype verdict = Passed | Failed message | Threw

text \<open>
  What a traversal does: run to its end, or stop at an uncaught \<open>TypeError\<close>; in both
  cases with the messages printed so far.
\<close>

datatype outcome = Finished "message list" | TypeError "message list"

fun messages :: "outcome \<Rightarrow> message list" where
  "messages (Finished ms) = ms"
| "messages (TypeError ms) = ms"

fun andThen :: "outcome \<Rightarrow> outcome \<Rightarrow> outcome" where
  "andThen (TypeError ms) next = TypeError ms"
| "andThen (Finished ms) (Finished ms') = Finished (ms @ ms')"
| "andThen (Finished ms) (TypeError ms') = TypeError (ms @ ms')"

text \<open>\<open>Array.prototype.forEach\<close> with a callback that prints and may throw.\<close>

fun forEach :: "('a \<Rightarrow> outcome) \<Rightarrow> 'a list \<Rightarrow> outcome" where
  "forEach f [] = Finished []"
| "forEach f (x # xs) = andThen (f x) (forEach f xs)"

record story =
  headerText :: jstring
  hanzi :: jstring
  pinyinAndTones :: "jstring list"
  translationStr :: "jstring option"
  tags :: "jstring option"
  storyTranslations :: "jstring list"
  isMovieSetStory :: bool
  isWheelStory :: bool
  isPouringRainStory :: bool
  isOldWestStory :: bool
  isSciFiStory :: bool
  isPoliceDramaStory :: bool
  storyLines :: "jstring list"
  storyNotes :: "jstring list"
  hanziBreakdown :: "jstring option"

text \<open>
  The object \<open>{headerText: text}\<close>. The other fields are assigned later; no rule reads a
  field before the script assigns it, so their initial values are never looked at.
\<close>

definition newStory :: "jstring \<Rightarrow> story" where
  "newStory t =
     \<lparr>headerText = t, hanzi = [], pinyinAndTones = [], translationStr = None, tags = None,
      storyTranslations = [], isMovieSetStory = False, isWheelStory = False,
      isPouringRainStory = False, isOldWestStory = False, isSciFiStory = False,
      isPoliceDramaStory = False, storyLines = [], storyNotes = [], hanziBreakdown = None\<rparr>"

text \<open>Truthiness of \<open>tags && tags.includes(marker)\<close> and of an optional string.\<close>

definition hasTag :: "jstring option \<Rightarrow> jstring \<Rightarrow> bool" where
  "hasTag t marker = (case t of None \<Rightarrow> False | Some s \<Rightarrow> s \<noteq> [] \<and> includesStr s marker)"

definition truthy :: "jstring option \<Rightarrow> bool" where
  "truthy v = (case v of None \<Rightarrow> False | Some s \<Rightarrow> s \<noteq> [])"

section \<open>The rules of the audit script\<close>

subsection \<open>The patterns\<close>

text \<open>The pattern \<open>^.: \S\<close>; the dot matches any code unit but a line terminator.\<close>

definition headerShape :: "jstring \<Rightarrow> bool" where
  "headerShape s =
     (case s of
        c0 # c1 # c2 # c3 # others \<Rightarrow>
          \<not> isLineTerminator c0 \<and> c1 = colon \<and> c2 = 32 \<and> \<not> isWhiteSpace c3
      | _ \<Rightarrow> False)"

text \<open>The pattern \<open>^(u-diaeresis|[a-z])+[1-5]?$\<close>.\<close>

definition isPinyinLetter :: "codeunit \<Rightarrow> bool" where
  "isPinyinLetter c \<longleftrightarrow> c = 252 \<or> (97 \<le> c \<and> c \<le> 122)"

definition isToneDigit :: "codeunit \<Rightarrow> bool" where
  "isToneDigit c \<longleftrightarrow> 49 \<le> c \<and> c \<le> 53"

definition pinyinAndTonePattern :: "jstring \<Rightarrow> bool" where
  "pinyinAndTonePattern s \<longleftrightarrow>
     s \<noteq> [] \<and>
     (list_all isPinyinLetter s \<or>
      (butlast s \<noteq> [] \<and> list_all isPinyinLetter (butlast s) \<and> isToneDigit (last s)))"

text \<open>The pattern \<open>^[1-5]$\<close>.\<close>

definition toneLevelPattern :: "jstring \<Rightarrow> bool" where
  "toneLevelPattern s = (case s of [c] \<Rightarrow> isToneDigit c | _ \<Rightarrow> False)"

text \<open>
  The pattern \<open>^[^+]+(\+[^+]+)+$\<close>: the pieces between the plus signs are at least two and
  none is empty.
\<close>

definition breakdownPattern :: "jstring \<Rightarrow> bool" where
  "breakdownPattern b \<longleftrightarrow>
     2 \<le> length (split b plus) \<and> list_all (\<lambda>piece. piece \<noteq> []) (split b plus)"

subsection \<open>The checks before the children are read\<close>

definition validateHeaderFormat :: "jstring \<Rightarrow> story \<Rightarrow> verdict" where
  "validateHeaderFormat path story =
     (if \<not> headerShape (headerText story)
      then Failed (HeaderError path (take 5 (headerText story)))
      else Passed)"

definition hanziIsSingleCharacter :: "jstring \<Rightarrow> story \<Rightarrow> verdict" where
  "hanziIsSingleCharacter path story =
     (if length (hanzi story) \<noteq> 1
      then Failed (EntryError SingleCharacter path (hanzi story))
      else Passed)"

text \<open>
  \<open>pinyinAndTonesValid\<close> prints one message for each token that is neither the sentinel
  nor of the pinyin shape, and returns true when it printed none. The model returns the
  messages printed.
\<close>

definition malformedToken :: "jstring \<Rightarrow> bool" where
  "malformedToken t \<longleftrightarrow> t \<noteq> noPronunciation \<and> \<not> pinyinAndTonePattern t"

definition pinyinAndTonesValid :: "jstring \<Rightarrow> story \<Rightarrow> message list" where
  "pinyinAndTonesValid path story =
     map (PinyinError path (hanzi story)) (filter malformedToken (pinyinAndTones story))"

definition pinyinCountMatchesTranslationCount :: "jstring \<Rightarrow> story \<Rightarrow> verdict" where
  "pinyinCountMatchesTranslationCount path story =
     (if length (pinyinAndTones story) \<noteq> length (storyTranslations story)
      then Failed (EntryError CountMatch path (hanzi story))
      else Passed)"

definition matchingPinyinSyllable :: "jstring \<Rightarrow> story \<Rightarrow> verdict" where
  "matchingPinyinSyllable path story =
     (let expectedPinyinSyllable = filter (\<lambda>c. c \<noteq> slash) path
      in if nthOpt (pinyinAndTones story) 0 \<noteq> Some expectedPinyinSyllable
         then Failed (EntryError SyllableMatch path (hanzi story))
         else Passed)"

definition multiplePinyinSyllablesWithMovieSetTag :: "jstring \<Rightarrow> story \<Rightarrow> verdict" where
  "multiplePinyinSyllablesWithMovieSetTag path story =
     (if 1 < length (pinyinAndTones story) \<and> \<not> isMovieSetStory story
      then Failed (EntryError MultiplePinyinRequireTag path (hanzi story))
      else if isMovieSetStory story \<and> length (pinyinAndTones story) = 1
      then Failed (EntryError TagRequiresMultiplePinyin path (hanzi story))
      else Passed)"

subsection \<open>Reading the children\<close>

text \<open>
  The loop of \<open>parseChildren\<close> from child \<open>i\<close> on; the flag is
  \<open>hanziBreakdownEncountered\<close>. It returns the verdict and the story as the loop left it.
\<close>

fun parseChildrenFrom ::
  "jstring \<Rightarrow> node list \<Rightarrow> nat \<Rightarrow> bool \<Rightarrow> story \<Rightarrow> verdict \<times> story" where
  "parseChildrenFrom path [] i encountered story = (Passed, story)"
| "parseChildrenFrom path (child # rest) i encountered story =
     (if (case outline child of None \<Rightarrow> False | Some grandChildren \<Rightarrow> 0 < length grandChildren)
      then (Failed (EntryError GrandChildNodes path (hanzi story)), story)
      else if startsWith (nodeText child) breakdownMarker then
        (if encountered
         then (Failed (EntryError MultipleBreakdowns path (hanzi story)), story)
         else if i \<noteq> 0
         then (Failed (EntryError BreakdownNotFirst path (hanzi story)), story)
         else parseChildrenFrom path rest (i + 1) True
                (story\<lparr>hanziBreakdown := Some (trim (drop 2 (nodeText child)))\<rparr>))
      else if startsWith (nodeText child) noteMarker then
        parseChildrenFrom path rest (i + 1) encountered
          (story\<lparr>storyNotes := storyNotes story @ [trim (drop 2 (nodeText child))]\<rparr>)
      else
        parseChildrenFrom path rest (i + 1) encountered
          (story\<lparr>storyLines := storyLines story @ [nodeText child]\<rparr>))"

definition parseChildren :: "jstring \<Rightarrow> node \<Rightarrow> story \<Rightarrow> verdict \<times> story" where
  "parseChildren path hanziElement story =
     (let children = outline hanziElement
      in if (children = None \<or> children = Some []) \<and> path \<noteq> noPronunciation
         then (Failed (EntryError MustHaveChildren path (hanzi story)), story)
         else (case children of
                 None \<Rightarrow> (Passed, story\<lparr>storyLines := [], storyNotes := []\<rparr>)
               | Some cs \<Rightarrow>
                   parseChildrenFrom path cs 0 False (story\<lparr>storyLines := [], storyNotes := []\<rparr>)))"

subsection \<open>The content rules\<close>

definition wheelStoryValid :: "jstring \<Rightarrow> story \<Rightarrow> verdict" where
  "wheelStoryValid path story =
     (if isWheelStory story \<and> truthy (hanziBreakdown story)
      then Failed (EntryError WheelNoBreakdown path (hanzi story))
      else Passed)"

definition hanziBreakdownValid :: "jstring \<Rightarrow> story \<Rightarrow> verdict" where
  "hanziBreakdownValid path story =
     (if \<not> isWheelStory story \<and> \<not> truthy (hanziBreakdown story) \<and> path \<noteq> noPronunciation
      then Failed (EntryError BreakdownRequired path (hanzi story))
      else (case hanziBreakdown story of
              None \<Rightarrow> Passed
            | Some b \<Rightarrow>
                if b \<noteq> [] \<and> \<not> breakdownPattern b
                then Failed (EntryError BreakdownFormat path (hanzi story))
                else Passed))"

definition storyTypeCount :: "story \<Rightarrow> nat" where
  "storyTypeCount story =
     (if isMovieSetStory story then 1 else 0) + (if isOldWestStory story then 1 else 0)
     + (if isSciFiStory story then 1 else 0) + (if isPoliceDramaStory story then 1 else 0)"

definition storyTypeValid :: "jstring \<Rightarrow> story \<Rightarrow> verdict" where
  "storyTypeValid path story =
     (if storyTypeCount story \<noteq> 0 \<and> storyTypeCount story \<noteq> 1
      then Failed (EntryError StoryTypeExclusive path (hanzi story))
      else Passed)"

definition atLeastOneStoryLine :: "jstring \<Rightarrow> story \<Rightarrow> verdict" where
  "atLeastOneStoryLine path story =
     (if length (storyLines story) = 0 \<and> path \<noteq> noPronunciation
      then Failed (EntryError AtLeastOneStoryLine path (hanzi story))
      else Passed)"

text \<open>
  \<open>story.storyLines[0].toLowerCase()\<close> is evaluated for a wheel story only, and raises
  when there is no first story line.
\<close>

definition wheelStoryMentionsWheel :: "jstring \<Rightarrow> story \<Rightarrow> verdict" where
  "wheelStoryMentionsWheel path story =
     (if isWheelStory story then
        (case nthOpt (storyLines story) 0 of
           None \<Rightarrow> Threw
         | Some line \<Rightarrow>
             if \<not> includesStr (toLowerCase line) (js ''wheel'')
             then Failed (EntryError WheelMentionsWheel path (hanzi story))
             else Passed)
      else Passed)"

definition movieSetStoryHasAtLeastFourStoryLines :: "jstring \<Rightarrow> story \<Rightarrow> verdict" where
  "movieSetStoryHasAtLeastFourStoryLines path story =
     (if isMovieSetStory story \<and> length (storyLines story) < 4
      then Failed (EntryError MovieSetFourLines path (hanzi story))
      else Passed)"

definition oldWestStoryMustBeginWithCorrectPattern :: "jstring \<Rightarrow> story \<Rightarrow> verdict" where
  "oldWestStoryMustBeginWithCorrectPattern path story =
     (if isOldWestStory story
         \<and> \<not> startsWith (toStringArg (nthOpt (storyLines story) 0)) (js ''(Old West'')
      then Failed (EntryError OldWestPrefix path (hanzi story))
      else Passed)"

definition sciFiStoryMustBeginWithCorrectPattern :: "jstring \<Rightarrow> story \<Rightarrow> verdict" where
  "sciFiStoryMustBeginWithCorrectPattern path story =
     (if isSciFiStory story
         \<and> \<not> startsWith (toStringArg (nthOpt (storyLines story) 0)) (js ''(Sci-fi'')
      then Failed (EntryError SciFiPrefix path (hanzi story))
      else Passed)"

definition policeDramaStoryMustBeginWithCorrectPattern :: "jstring \<Rightarrow> story \<Rightarrow> verdict" where
  "policeDramaStoryMustBeginWithCorrectPattern path story =
     (if isPoliceDramaStory story
         \<and> \<not> startsWith (toStringArg (nthOpt (storyLines story) 0)) (js ''(Police drama'')
      then Failed (EntryError PoliceDramaPrefix path (hanzi story))
      else Passed)"

definition pouringRainStoryMustHaveEligibleSyllable :: "jstring \<Rightarrow> story \<Rightarrow> verdict" where
  "pouringRainStoryMustHaveEligibleSyllable path story =
     (if isPouringRainStory story
         \<and> \<not> pouringRainSyllable (toStringArg (nthOpt (pinyinAndTones story) 0))
      then Failed (EntryError PouringRainEligible path (hanzi story))
      else Passed)"

definition storyWithPouringRainSyllableMustBePouringRainStory ::
  "jstring \<Rightarrow> story \<Rightarrow> verdict" where
  "storyWithPouringRainSyllableMustBePouringRainStory path story =
     (if pouringRainSyllable (toStringArg (nthOpt (pinyinAndTones story) 0))
         \<and> \<not> isPouringRainStory story
         \<and> nthOpt (pinyinAndTones story) 0 \<noteq> Some (js ''yu'')
      then Failed (EntryError PouringRainRequired path (hanzi story))
      else Passed)"

definition pouringRainStoryMustMentionPouringRainInStoryText ::
  "jstring \<Rightarrow> story \<Rightarrow> verdict" where
  "pouringRainStoryMustMentionPouringRainInStoryText path story =
     (if isPouringRainStory story
         \<and> \<not> list_ex (\<lambda>line. includesStr (toLowerCase line) (js ''pouring rain''))
               (storyLines story)
      then Failed (EntryError PouringRainMentioned path (hanzi story))
      else Passed)"

section \<open>Auditing one hanzi element\<close>

text \<open>
  \<open>if (!rule(path, story)) return;\<close> inside the part of \<open>auditHanziElement\<close> that builds
  the story: the audit of the element ends (\<open>Inl\<close>) unless the rule passed.
\<close>

fun guard :: "verdict \<Rightarrow> outcome + story \<Rightarrow> outcome + story" where
  "guard Passed next = next"
| "guard (Failed m) next = Inl (Finished [m])"
| "guard Threw next = Inl (TypeError [])"

text \<open>
  The first part of \<open>auditHanziElement\<close>: the two checks on the header and the
  splitting of the text into the fields of the story. The result is the story with
  \<open>hanzi\<close>, \<open>pinyinAndTones\<close>, \<open>translationStr\<close> and \<open>tags\<close> assigned (\<open>Inr\<close>), or how
  the audit of the element ended before that (\<open>Inl\<close>). Calling \<open>split\<close> on an
  \<open>undefined\<close> element of a destructured array raises a \<open>TypeError\<close>.
\<close>

definition readHeader :: "jstring \<Rightarrow> node \<Rightarrow> outcome + story" where
  "readHeader path hanziElement =
     (let text = nodeText hanziElement;
          story = newStory text
      in guard (validateHeaderFormat path story)
        (case split text colon of
           [] \<Rightarrow> Inl (TypeError [])
         | hanziPart # afterHanzi \<Rightarrow>
            guard (hanziIsSingleCharacter path (story\<lparr>hanzi := hanziPart\<rparr>))
             (case nthOpt afterHanzi 0 of
                None \<Rightarrow> Inl (TypeError [])
              | Some rest \<Rightarrow>
                 (case nthOpt (map trim (split rest bar)) 0 of
                    None \<Rightarrow> Inl (TypeError [])
                  | Some pinyinAndToneStr \<Rightarrow>
                      Inr (story\<lparr>hanzi := hanziPart,
                                 pinyinAndTones := map trim (split pinyinAndToneStr comma),
                                 translationStr := nthOpt (map trim (split rest bar)) 1,
                                 tags := nthOpt (map trim (split rest bar)) 2\<rparr>)))))"

text \<open>
  The second part, from \<open>pinyinAndTonesValid\<close> down to \<open>parseChildren\<close>, on the story that
  the first part built. \<open>translationStr.split\<close> raises a \<open>TypeError\<close> when the header had
  no vertical bar.
\<close>

definition parseStory :: "jstring \<Rightarrow> node \<Rightarrow> story \<Rightarrow> outcome + story" where
  "parseStory path hanziElement story =
     (if pinyinAndTonesValid path story \<noteq> []
      then Inl (Finished (pinyinAndTonesValid path story))
      else
       (case translationStr story of
          None \<Rightarrow> Inl (TypeError [])
        | Some translationText \<Rightarrow>
           (let story = story\<lparr>storyTranslations := map trim (split translationText comma)\<rparr>
            in guard (pinyinCountMatchesTranslationCount path story)
              (guard (matchingPinyinSyllable path story)
                (let story =
                       story\<lparr>isMovieSetStory := hasTag (tags story) movieSetTag,
                             isWheelStory := hasTag (tags story) wheelTag,
                             isPouringRainStory := hasTag (tags story) pouringRainTag,
                             isOldWestStory := hasTag (tags story) oldWestTag,
                             isSciFiStory := hasTag (tags story) sciFiTag,
                             isPoliceDramaStory := hasTag (tags story) policeDramaTag\<rparr>
                 in guard (multiplePinyinSyllablesWithMovieSetTag path story)
                   (case parseChildren path hanziElement story of
                      (v, story) \<Rightarrow> guard v (Inr story)))))))"

definition parseEntry :: "jstring \<Rightarrow> node \<Rightarrow> outcome + story" where
  "parseEntry path hanziElement =
     (case readHeader path hanziElement of
        Inl ended \<Rightarrow> Inl ended
      | Inr story \<Rightarrow> parseStory path hanziElement story)"

text \<open>\<open>if (!rule(path, story)) return;\<close> in the rest of \<open>auditHanziElement\<close>.\<close>

fun check :: "verdict \<Rightarrow> outcome \<Rightarrow> outcome" where
  "check Passed next = next"
| "check (Failed m) next = Finished [m]"
| "check Threw next = TypeError []"

text \<open>The rest of \<open>auditHanziElement\<close>: the twelve rules that follow \<open>parseChildren\<close>.\<close>

definition contentRules :: "jstring \<Rightarrow> story \<Rightarrow> outcome" where
  "contentRules path story =
     check (wheelStoryValid path story)
    (check (hanziBreakdownValid path story)
    (check (storyTypeValid path story)
    (check (atLeastOneStoryLine path story)
    (check (wheelStoryMentionsWheel path story)
    (check (movieSetStoryHasAtLeastFourStoryLines path story)
    (check (oldWestStoryMustBeginWithCorrectPattern path story)
    (check (sciFiStoryMustBeginWithCorrectPattern path story)
    (check (policeDramaStoryMustBeginWithCorrectPattern path story)
    (check (pouringRainStoryMustHaveEligibleSyllable path story)
    (check (storyWithPouringRainSyllableMustBePouringRainStory path story)
    (check (pouringRainStoryMustMentionPouringRainInStoryText path story)
       (Finished []))))))))))))"

definition auditHanziElement :: "jstring \<Rightarrow> node \<Rightarrow> outcome" where
  "auditHanziElement path hanziElement =
     (case parseEntry path hanziElement of
        Inl ended \<Rightarrow> ended
      | Inr story \<Rightarrow> contentRules path story)"

section \<open>Auditing the document\<close>

text \<open>The callback that \<open>auditHanziStories\<close> runs on each child of a pronunciation element.\<close>

definition auditToneElement :: "jstring \<Rightarrow> node \<Rightarrow> outcome" where
  "auditToneElement syllable child =
     (if nodeText child \<noteq> tongue \<and> \<not> toneLevelPattern (nodeText child)
      then Finished [PronunciationElementError syllable]
      else if nodeText child \<noteq> tongue then
        (case outline child of
           None \<Rightarrow> TypeError []
         | Some hanziElements \<Rightarrow>
             forEach (auditHanziElement (syllable @ [slash] @ nodeText child)) hanziElements)
      else Finished [])"

definition auditPronunciationElement :: "node \<Rightarrow> outcome" where
  "auditPronunciationElement pronunciation =
     (case outline pronunciation of
        None \<Rightarrow> TypeError []
      | Some children \<Rightarrow> forEach (auditToneElement (nodeText pronunciation)) children)"

definition auditHanziStories :: "node \<Rightarrow> outcome" where
  "auditHanziStories pronunciations =
     (case outline pronunciations of
        None \<Rightarrow> TypeError []
      | Some topLevel \<Rightarrow>
         (case nthOpt topLevel 2 of
            None \<Rightarrow> TypeError []
          | Some firstPronunciation \<Rightarrow>
              if \<not> includesStr (nodeText firstPronunciation) noPronunciation
              then Finished [FirstPronunciationError]
              else
               (case outline firstPronunciation of
                  None \<Rightarrow> TypeError []
                | Some hanziElements \<Rightarrow>
                    andThen (forEach (auditHanziElement noPronunciation) hanziElements)
                            (forEach auditPronunciationElement (drop 3 topLevel)))))"

section \<open>The loader of the flashcard script\<close>







section \<open>Notions of the specification\<close>

text \<open>
  The specification's reading of the eligible-syllable rule: the first pronunciation token
  with its tone digit stripped.
\<close>

definition toneStripped :: "jstring \<Rightarrow> jstring" where
  "toneStripped t = (if t \<noteq> [] \<and> isToneDigit (last t) then butlast t else t)"

text \<open>
  The specification's reading of an ordered rule list: the verdicts are looked at from the
  left, and the first one that is not a pass decides.
\<close>

fun firstFailure :: "verdict list \<Rightarrow> outcome" where
  "firstFailure [] = Finished []"
| "firstFailure (Passed # vs) = firstFailure vs"
| "firstFailure (Failed m # vs) = Finished [m]"
| "firstFailure (Threw # vs) = TypeError []"



text \<open>The messages about one story entry, as opposed to those about the tiers above it.\<close>

fun entryLevel :: "message \<Rightarrow> bool" where
  "entryLevel FirstPronunciationError = False"
| "entryLevel (PronunciationElementError syllable) = False"
| "entryLevel (HeaderError path start) = True"
| "entryLevel (PinyinError path h token) = True"
| "entryLevel (EntryError r path h) = True"







section \<open>Evaluation on concrete entries\<close>

lemmas literal_defs =
  js_def colon_def bar_def comma_def slash_def plus_def noPronunciation_def tongue_def
  breakdownMarker_def noteMarker_def movieSetTag_def wheelTag_def pouringRainTag_def
  oldWestTag_def sciFiTag_def policeDramaTag_def pouringRainSyllables_def
  pouringRainSyllable_def

lemmas string_defs =
  isLineTerminator_def isWhiteSpace_def trim_def toLowerCaseUnit_def toLowerCase_def
  nthOpt_def toStringArg_def hasTag_def truthy_def

lemmas rule_defs =
  headerShape_def isPinyinLetter_def isToneDigit_def pinyinAndTonePattern_def
  toneLevelPattern_def breakdownPattern_def validateHeaderFormat_def
  hanziIsSingleCharacter_def malformedToken_def pinyinAndTonesValid_def
  pinyinCountMatchesTranslationCount_def matchingPinyinSyllable_def
  multiplePinyinSyllablesWithMovieSetTag_def parseChildren_def wheelStoryValid_def
  hanziBreakdownValid_def storyTypeCount_def storyTypeValid_def atLeastOneStoryLine_def
  wheelStoryMentionsWheel_def movieSetStoryHasAtLeastFourStoryLines_def
  oldWestStoryMustBeginWithCorrectPattern_def sciFiStoryMustBeginWithCorrectPattern_def
  policeDramaStoryMustBeginWithCorrectPattern_def
  pouringRainStoryMustHaveEligibleSyllable_def
  storyWithPouringRainSyllableMustBePouringRainStory_def
  pouringRainStoryMustMentionPouringRainInStoryText_def

lemmas audit_defs =
  newStory_def readHeader_def parseStory_def parseEntry_def contentRules_def
  auditHanziElement_def Let_def

lemmas entry_eval = literal_defs string_defs rule_defs audit_defs

section \<open>The header without a translation segment\<close>

text \<open>
  C9. The header \<open>de\<close> after the hanzi 0x7684 and the colon passes the header-shape rule and
  the single-character rule, and its one token is a well-formed pinyin token. It has no
  vertical bar, so \<open>translationStr\<close> is \<open>undefined\<close>, and the next statement,
  \<open>translationStr.split(',')\<close>, raises a \<open>TypeError\<close>: under every path and with any
  children, the audit of this entry ends with an exception and no message, not with a rule
  violation.
\<close>

theorem C9_missing_translation_segment_throws:
  "validateHeaderFormat path (newStory (30340 # js '': de'')) = Passed
   \<and> auditHanziElement path (Node (30340 # js '': de'') children) = TypeError []"
  by (simp add: entry_eval)

section \<open>The wheel story without story lines\<close>

text \<open>
  C10. An entry under \<open>(no pronunciation)\<close> with the wheel tag and no children: the
  at-least-one-story-line rule passes (the path is exempt) with no story line, and the
  wheel-mentions-wheel rule then reads \<open>storyLines[0]\<close>, which is \<open>undefined\<close>, and calls
  \<open>toLowerCase\<close> on it: the rule raises a \<open>TypeError\<close> and gives no verdict.
\<close>

theorem C10_wheel_without_story_lines_throws:
  "\<exists>s. parseEntry noPronunciation
          (Node (30340 # js '': (no pronunciation) | of | '' @ wheelTag) None) = Inr s
       \<and> isWheelStory s \<and> storyLines s = []
       \<and> atLeastOneStoryLine noPronunciation s = Passed
       \<and> wheelStoryMentionsWheel noPronunciation s = Threw
       \<and> auditHanziElement noPronunciation
            (Node (30340 # js '': (no pronunciation) | of | '' @ wheelTag) None) = TypeError []"
  by (simp add: entry_eval)

section \<open>The eligible syllables of a pouring-rain story\<close>

text \<open>
  C2. An entry under \<open>ju/2\<close> with the pouring-rain tag, a breakdown and a story line that
  mentions pouring rain. Its first token is \<open>ju2\<close>, as the first-syllable rule demands
  under this path, and \<open>ju2\<close> with the tone digit stripped is \<open>ju\<close>, a syllable of the
  list. The script tests the token itself, tone digit included, against the anchored
  pattern, so the eligible-syllable rule fails.
\<close>

theorem C2_ju2_pouring_rain_story_rejected:
  "pouringRainSyllable (toneStripped (js ''ju2''))
   \<and> auditHanziElement (js ''ju/2'')
        (Node (21477 # js '': ju2 | sentence | '' @ pouringRainTag)
           (Some [Node (breakdownMarker @ js '' wrap + mouth'') None,
                  Node (js ''A sentence shouted in the pouring rain.'') None]))
       = Finished [EntryError PouringRainEligible (js ''ju/2'') [21477]]"
  by (simp add: entry_eval toneStripped_def)

section \<open>How the audit of an element can end\<close>

lemma split_not_Nil: "split s sep \<noteq> []"
  by (induction s) (auto split: list.splits)

lemma guard_Inr: "guard v next = Inr s \<longleftrightarrow> v = Passed \<and> next = Inr s"
  by (cases v) auto

lemma guard_Inl:
  "guard v next = Inl out \<Longrightarrow>
     (\<exists>m. v = Failed m \<and> out = Finished [m]) \<or> (v = Threw \<and> out = TypeError [])
     \<or> (v = Passed \<and> next = Inl out)"
  by (cases v) auto

lemma check_Nil: "check v next = Finished [] \<longleftrightarrow> v = Passed \<and> next = Finished []"
  by (cases v) auto

lemma firstFailure_Cons: "firstFailure (v # vs) = check v (firstFailure vs)"
  by (cases v) simp_all

lemma header_rules_entryLevel:
  "validateHeaderFormat path s = Failed m \<Longrightarrow> entryLevel m"
  "hanziIsSingleCharacter path s = Failed m \<Longrightarrow> entryLevel m"
  "pinyinCountMatchesTranslationCount path s = Failed m \<Longrightarrow> entryLevel m"
  "matchingPinyinSyllable path s = Failed m \<Longrightarrow> entryLevel m"
  "multiplePinyinSyllablesWithMovieSetTag path s = Failed m \<Longrightarrow> entryLevel m"
  by (auto simp: validateHeaderFormat_def hanziIsSingleCharacter_def
        pinyinCountMatchesTranslationCount_def matchingPinyinSyllable_def
        multiplePinyinSyllablesWithMovieSetTag_def Let_def split: if_splits)

lemma content_rules_entryLevel:
  "wheelStoryValid path s = Failed m \<Longrightarrow> entryLevel m"
  "hanziBreakdownValid path s = Failed m \<Longrightarrow> entryLevel m"
  "storyTypeValid path s = Failed m \<Longrightarrow> entryLevel m"
  "atLeastOneStoryLine path s = Failed m \<Longrightarrow> entryLevel m"
  "wheelStoryMentionsWheel path s = Failed m \<Longrightarrow> entryLevel m"
  "movieSetStoryHasAtLeastFourStoryLines path s = Failed m \<Longrightarrow> entryLevel m"
  "oldWestStoryMustBeginWithCorrectPattern path s = Failed m \<Longrightarrow> entryLevel m"
  "sciFiStoryMustBeginWithCorrectPattern path s = Failed m \<Longrightarrow> entryLevel m"
  "policeDramaStoryMustBeginWithCorrectPattern path s = Failed m \<Longrightarrow> entryLevel m"
  "pouringRainStoryMustHaveEligibleSyllable path s = Failed m \<Longrightarrow> entryLevel m"
  "storyWithPouringRainSyllableMustBePouringRainStory path s = Failed m \<Longrightarrow> entryLevel m"
  "pouringRainStoryMustMentionPouringRainInStoryText path s = Failed m \<Longrightarrow> entryLevel m"
  by (auto simp: wheelStoryValid_def hanziBreakdownValid_def storyTypeValid_def
        atLeastOneStoryLine_def wheelStoryMentionsWheel_def
        movieSetStoryHasAtLeastFourStoryLines_def oldWestStoryMustBeginWithCorrectPattern_def
        sciFiStoryMustBeginWithCorrectPattern_def policeDramaStoryMustBeginWithCorrectPattern_def
        pouringRainStoryMustHaveEligibleSyllable_def
        storyWithPouringRainSyllableMustBePouringRainStory_def
        pouringRainStoryMustMentionPouringRainInStoryText_def
        split: if_splits option.splits)

text \<open>The loop over the children changes the story lines, the notes and the breakdown only.\<close>

lemma parseChildrenFrom_keeps:
  "parseChildrenFrom path cs i enc s = (v, s') \<Longrightarrow>
     pinyinAndTones s' = pinyinAndTones s \<and> isMovieSetStory s' = isMovieSetStory s
     \<and> isWheelStory s' = isWheelStory s \<and> hanzi s' = hanzi s"
  by (induction path cs i enc s rule: parseChildrenFrom.induct) (auto split: if_splits)

lemma parseChildren_keeps:
  "parseChildren path e s = (v, s') \<Longrightarrow>
     pinyinAndTones s' = pinyinAndTones s \<and> isMovieSetStory s' = isMovieSetStory s
     \<and> isWheelStory s' = isWheelStory s \<and> hanzi s' = hanzi s"
  by (auto simp: parseChildren_def Let_def split: if_splits option.splits
        dest: parseChildrenFrom_keeps)

lemma parseChildrenFrom_entryLevel:
  "parseChildrenFrom path cs i enc s = (Failed m, s') \<Longrightarrow> entryLevel m"
  by (induction path cs i enc s rule: parseChildrenFrom.induct) (auto split: if_splits)

lemma parseChildren_entryLevel:
  "parseChildren path e s = (Failed m, s') \<Longrightarrow> entryLevel m"
  by (auto simp: parseChildren_def Let_def split: if_splits option.splits
        dest: parseChildrenFrom_entryLevel)

lemma readHeader_tokens: "readHeader path e = Inr s \<Longrightarrow> pinyinAndTones s \<noteq> []"
  by (auto simp: readHeader_def Let_def guard_Inr split_not_Nil split: list.splits option.splits)

lemma readHeader_Inl:
  assumes "readHeader path e = Inl out"
  shows "(\<exists>m. entryLevel m \<and> out = Finished [m]) \<or> out = TypeError []"
proof (cases "validateHeaderFormat path (newStory (nodeText e))")
  case Passed
  show ?thesis
  proof (cases "split (nodeText e) colon")
    case Nil
    with assms Passed show ?thesis by (simp add: readHeader_def Let_def)
  next
    case (Cons h rest)
    show ?thesis
    proof (cases "hanziIsSingleCharacter path (newStory (nodeText e)\<lparr>hanzi := h\<rparr>)")
      case single: Passed
      with assms Passed Cons show ?thesis
        by (auto simp: readHeader_def Let_def split: option.splits)
    next
      case (Failed m)
      with assms Passed Cons header_rules_entryLevel(2)[OF Failed] show ?thesis
        by (auto simp: readHeader_def Let_def)
    next
      case Threw
      with assms Passed Cons show ?thesis by (simp add: readHeader_def Let_def)
    qed
  qed
next
  case (Failed m)
  with assms header_rules_entryLevel(1)[OF Failed] show ?thesis
    by (auto simp: readHeader_def Let_def)
next
  case Threw
  with assms show ?thesis by (simp add: readHeader_def Let_def)
qed

lemma pinyin_messages_entryLevel: "list_all entryLevel (pinyinAndTonesValid path s)"
  by (simp add: pinyinAndTonesValid_def list_all_iff)

lemma parseStory_Inl:
  assumes "parseStory path e s0 = Inl out"
  shows "(\<exists>m. entryLevel m \<and> out = Finished [m]) \<or> out = TypeError []
         \<or> (pinyinAndTonesValid path s0 \<noteq> [] \<and> out = Finished (pinyinAndTonesValid path s0))"
  using assms
  by (auto simp: parseStory_def Let_def split: if_splits option.splits prod.splits
        dest!: guard_Inl dest: header_rules_entryLevel parseChildren_entryLevel)

lemma parseStory_movie:
  "parseStory path e s0 = Inr s \<Longrightarrow>
     pinyinAndTones s = pinyinAndTones s0
     \<and> \<not> (1 < length (pinyinAndTones s) \<and> \<not> isMovieSetStory s)
     \<and> \<not> (isMovieSetStory s \<and> length (pinyinAndTones s) = 1)"
  by (auto simp: parseStory_def Let_def guard_Inr multiplePinyinSyllablesWithMovieSetTag_def
        split: if_splits option.splits prod.splits dest!: parseChildren_keeps)

lemma contentRules_firstFailure:
  "contentRules path story =
     firstFailure
       [wheelStoryValid path story,
        hanziBreakdownValid path story,
        storyTypeValid path story,
        atLeastOneStoryLine path story,
        wheelStoryMentionsWheel path story,
        movieSetStoryHasAtLeastFourStoryLines path story,
        oldWestStoryMustBeginWithCorrectPattern path story,
        sciFiStoryMustBeginWithCorrectPattern path story,
        policeDramaStoryMustBeginWithCorrectPattern path story,
        pouringRainStoryMustHaveEligibleSyllable path story,
        storyWithPouringRainSyllableMustBePouringRainStory path story,
        pouringRainStoryMustMentionPouringRainInStoryText path story]"
  by (simp only: contentRules_def firstFailure_Cons firstFailure.simps(1))

lemma firstFailure_shape:
  "(\<And>m. Failed m \<in> set vs \<Longrightarrow> entryLevel m) \<Longrightarrow>
   firstFailure vs = Finished [] \<or> (\<exists>m. entryLevel m \<and> firstFailure vs = Finished [m])
   \<or> firstFailure vs = TypeError []"
  by (induction vs rule: firstFailure.induct) auto

lemma contentRules_shape:
  "contentRules path s = Finished [] \<or> (\<exists>m. entryLevel m \<and> contentRules path s = Finished [m])
   \<or> contentRules path s = TypeError []"
  unfolding contentRules_firstFailure
  by (rule firstFailure_shape) (auto dest: content_rules_entryLevel[OF sym])

lemma parseEntry_Inl_not_clean: "parseEntry path e = Inl out \<Longrightarrow> out \<noteq> Finished []"
  by (auto simp: parseEntry_def split: sum.splits dest: readHeader_Inl parseStory_Inl)

lemma clean_audit:
  assumes "auditHanziElement path e = Finished []"
  obtains s0 s where "readHeader path e = Inr s0" and "parseStory path e s0 = Inr s"
    and "parseEntry path e = Inr s" and "contentRules path s = Finished []"
proof (cases "parseEntry path e")
  case (Inl out)
  with assms parseEntry_Inl_not_clean[OF Inl] show ?thesis by (simp add: auditHanziElement_def)
next
  case (Inr s)
  then obtain s0 where "readHeader path e = Inr s0" "parseStory path e s0 = Inr s"
    by (auto simp: parseEntry_def split: sum.splits)
  with Inr assms that show ?thesis by (simp add: auditHanziElement_def)
qed

lemma audit_messages_entryLevel: "list_all entryLevel (messages (auditHanziElement path e))"
proof (cases "readHeader path e")
  case (Inl out)
  with readHeader_Inl[OF Inl] show ?thesis
    by (auto simp: auditHanziElement_def parseEntry_def)
next
  case (Inr s0)
  show ?thesis
  proof (cases "parseStory path e s0")
    case (Inl out)
    with parseStory_Inl[OF Inl] Inr pinyin_messages_entryLevel[of path s0] show ?thesis
      by (auto simp: auditHanziElement_def parseEntry_def)
  next
    case story: (Inr s)
    with Inr contentRules_shape[of path s] show ?thesis
      by (auto simp: auditHanziElement_def parseEntry_def)
  qed
qed

lemma andThen_messages:
  "list_all P (messages a) \<Longrightarrow> list_all P (messages b) \<Longrightarrow> list_all P (messages (andThen a b))"
  by (cases a; cases b) auto

lemma forEach_messages:
  "(\<And>x. x \<in> set xs \<Longrightarrow> list_all P (messages (f x))) \<Longrightarrow> list_all P (messages (forEach f xs))"
  by (induction xs) (auto intro: andThen_messages)

section \<open>The order of the content rules\<close>

text \<open>
  What holds of the traversal whatever the entries are: an entry whose audit ends, with or
  without messages, is followed by the audit of the rest of the list, and an entry whose
  audit raises an exception ends the traversal.
\<close>

lemma forEach_continues:
  "f e = Finished ms \<Longrightarrow> forEach f (e # es) = andThen (Finished ms) (forEach f es)"
  by simp

lemma forEach_stops:
  "f e = TypeError ms \<Longrightarrow> forEach f (e # es) = TypeError ms"
  by simp

text \<open>
  C6. The rest of \<open>auditHanziElement\<close> does apply the content rules in the stated order:
  wheel has no breakdown, breakdown required and well formed, settings mutually exclusive,
  at least one story line, wheel mentions wheel, movie set has four lines, old-west prefix,
  sci-fi prefix, police-drama prefix, pouring-rain eligible syllable, eligible syllable
  requires pouring rain, pouring rain mentioned; the first verdict of the list that is not a
  pass decides, and the rules after it are not applied. But processing does not always
  continue to the next entry. Under \<open>(no pronunciation)\<close>, an entry with the wheel tag and
  no children passes the first four rules, and the fifth, wheel mentions wheel, raises a
  \<open>TypeError\<close> instead of giving a verdict. Nothing catches it: the \<open>forEach\<close> over the
  entries ends there, and the entry that follows, which alone would get a message, is not
  audited; the audit of the whole document ends with the exception and no message.
\<close>

theorem C6_throwing_rule_stops_the_traversal:
  "contentRules path story =
     firstFailure
       [wheelStoryValid path story,
        hanziBreakdownValid path story,
        storyTypeValid path story,
        atLeastOneStoryLine path story,
        wheelStoryMentionsWheel path story,
        movieSetStoryHasAtLeastFourStoryLines path story,
        oldWestStoryMustBeginWithCorrectPattern path story,
        sciFiStoryMustBeginWithCorrectPattern path story,
        policeDramaStoryMustBeginWithCorrectPattern path story,
        pouringRainStoryMustHaveEligibleSyllable path story,
        storyWithPouringRainSyllableMustBePouringRainStory path story,
        pouringRainStoryMustMentionPouringRainInStoryText path story]
   \<and> (\<exists>s. parseEntry noPronunciation
            (Node (30340 # js '': (no pronunciation) | of | '' @ wheelTag) None) = Inr s
          \<and> wheelStoryValid noPronunciation s = Passed
          \<and> hanziBreakdownValid noPronunciation s = Passed
          \<and> storyTypeValid noPronunciation s = Passed
          \<and> atLeastOneStoryLine noPronunciation s = Passed
          \<and> wheelStoryMentionsWheel noPronunciation s = Threw)
   \<and> auditHanziElement noPronunciation (Node (30340 # js '': de | of'') None)
       = Finished [EntryError SyllableMatch noPronunciation [30340]]
   \<and> forEach (auditHanziElement noPronunciation)
         [Node (30340 # js '': (no pronunciation) | of | '' @ wheelTag) None,
          Node (30340 # js '': de | of'') None]
       = TypeError []
   \<and> auditHanziStories
         (Node (js ''HANZI'')
            (Some [Node (js ''a'') None, Node (js ''b'') None,
                   Node noPronunciation
                     (Some [Node (30340 # js '': (no pronunciation) | of | '' @ wheelTag) None,
                            Node (30340 # js '': de | of'') None])]))
       = TypeError []"
proof -
  let ?wheel = "Node (30340 # js '': (no pronunciation) | of | '' @ wheelTag) None"
  let ?after = "Node (30340 # js '': de | of'') None"
  have order: "contentRules path story =
     firstFailure
       [wheelStoryValid path story,
        hanziBreakdownValid path story,
        storyTypeValid path story,
        atLeastOneStoryLine path story,
        wheelStoryMentionsWheel path story,
        movieSetStoryHasAtLeastFourStoryLines path story,
        oldWestStoryMustBeginWithCorrectPattern path story,
        sciFiStoryMustBeginWithCorrectPattern path story,
        policeDramaStoryMustBeginWithCorrectPattern path story,
        pouringRainStoryMustHaveEligibleSyllable path story,
        storyWithPouringRainSyllableMustBePouringRainStory path story,
        pouringRainStoryMustMentionPouringRainInStoryText path story]"
    by (rule contentRules_firstFailure)
  have rules: "\<exists>s. parseEntry noPronunciation ?wheel = Inr s
          \<and> wheelStoryValid noPronunciation s = Passed
          \<and> hanziBreakdownValid noPronunciation s = Passed
          \<and> storyTypeValid noPronunciation s = Passed
          \<and> atLeastOneStoryLine noPronunciation s = Passed
          \<and> wheelStoryMentionsWheel noPronunciation s = Threw"
    by (simp add: entry_eval)
  have wheel: "auditHanziElement noPronunciation ?wheel = TypeError []"
    by (simp add: entry_eval)
  have after: "auditHanziElement noPronunciation ?after
       = Finished [EntryError SyllableMatch noPronunciation [30340]]"
    by (simp add: entry_eval)
  have list: "forEach (auditHanziElement noPronunciation) [?wheel, ?after] = TypeError []"
    using wheel by (rule forEach_stops)
  have anchor: "includesStr noPronunciation noPronunciation"
    by (simp add: noPronunciation_def js_def)
  have document: "auditHanziStories
         (Node (js ''HANZI'')
            (Some [Node (js ''a'') None, Node (js ''b'') None,
                   Node noPronunciation (Some [?wheel, ?after])]))
       = TypeError []"
    by (simp add: auditHanziStories_def nthOpt_def anchor wheel)
  from order rules after list document show ?thesis by (intro conjI)
qed

section \<open>The number of messages of a failing entry\<close>

text \<open>
  C3, as the claim states it, fails: an entry with two malformed pronunciation tokens gets
  two messages, one for each token, from the one rule \<open>pinyinAndTonesValid\<close>.
\<close>

theorem C3_two_malformed_tokens_two_messages:
  "auditHanziElement (js ''ma/1'') (Node (22920 # js '': MA, Mo | mother'') None)
   = Finished [PinyinError (js ''ma/1'') [22920] (js ''MA''),
               PinyinError (js ''ma/1'') [22920] (js ''Mo'')]"
  by (simp add: entry_eval)

text \<open>
  C3, amended. For every story entry whose audit ends at a failing rule (it prints a
  message and raises no exception), the messages come from that one rule and the rest of
  the rules is skipped: there is exactly one message, unless the failing rule is the
  pronunciation-token rule, which prints one message for each malformed token of the entry,
  in order.
\<close>

theorem C3_messages_of_a_failing_entry:
  assumes "auditHanziElement path e = Finished ms" and "ms \<noteq> []"
  shows "(\<exists>m. ms = [m])
         \<or> (\<exists>s. readHeader path e = Inr s
                \<and> ms = map (PinyinError path (hanzi s))
                         (filter malformedToken (pinyinAndTones s)))"
proof (cases "readHeader path e")
  case (Inl out)
  with assms have "out = Finished ms" by (simp add: auditHanziElement_def parseEntry_def)
  with readHeader_Inl[OF Inl] show ?thesis by auto
next
  case (Inr s0)
  show ?thesis
  proof (cases "parseStory path e s0")
    case (Inl out)
    with assms Inr have "out = Finished ms" by (simp add: auditHanziElement_def parseEntry_def)
    with parseStory_Inl[OF Inl] Inr show ?thesis by (auto simp: pinyinAndTonesValid_def)
  next
    case story: (Inr s)
    with assms Inr have "contentRules path s = Finished ms"
      by (simp add: auditHanziElement_def parseEntry_def)
    with contentRules_shape[of path s] assms(2) show ?thesis by auto
  qed
qed

text \<open>An entry under \<open>hei/1\<close> with one story line and no breakdown: one message.\<close>

theorem C3_messages_of_a_failing_entry_witness:
  "auditHanziElement (js ''hei/1'')
     (Node (22079 # js '': hei1 | hey'') (Some [Node (js ''Hey, a story.'') None]))
     = Finished [EntryError BreakdownRequired (js ''hei/1'') [22079]]
   \<and> ((\<exists>m. [EntryError BreakdownRequired (js ''hei/1'') [22079]] = [m])
       \<or> (\<exists>s. readHeader (js ''hei/1'')
                 (Node (22079 # js '': hei1 | hey'') (Some [Node (js ''Hey, a story.'') None]))
               = Inr s
              \<and> [EntryError BreakdownRequired (js ''hei/1'') [22079]]
                  = map (PinyinError (js ''hei/1'') (hanzi s))
                      (filter malformedToken (pinyinAndTones s))))"
proof -
  have h: "auditHanziElement (js ''hei/1'')
     (Node (22079 # js '': hei1 | hey'') (Some [Node (js ''Hey, a story.'') None]))
     = Finished [EntryError BreakdownRequired (js ''hei/1'') [22079]]"
    by (simp add: entry_eval)
  have n: "[EntryError BreakdownRequired (js ''hei/1'') [22079]] \<noteq> []" by simp
  from h C3_messages_of_a_failing_entry[OF h n] show ?thesis by (rule conjI)
qed

section \<open>Invariants of an entry that passes every rule\<close>

text \<open>
  C7. For every story entry that passes all validation rules (its audit ends with no
  message and no exception), the number of pronunciation tokens is greater than one if and
  only if the entry has the movie-set tag.
\<close>

theorem C7_movie_set_cardinality:
  assumes "auditHanziElement path e = Finished []"
  shows "\<exists>s. parseEntry path e = Inr s
           \<and> (1 < length (pinyinAndTones s)) = isMovieSetStory s"
proof -
  from assms obtain s0 s where h: "readHeader path e = Inr s0" "parseStory path e s0 = Inr s"
    "parseEntry path e = Inr s" by (rule clean_audit)
  define n where "n = length (pinyinAndTones s)"
  from parseStory_movie[OF h(2)] readHeader_tokens[OF h(1)]
  have "0 < n" and "\<not> (1 < n \<and> \<not> isMovieSetStory s)" and "\<not> (isMovieSetStory s \<and> n = 1)"
    by (auto simp: n_def)
  then have "(1 < n) = isMovieSetStory s"
    by (cases "n = 1") auto
  then have "(1 < length (pinyinAndTones s)) = isMovieSetStory s"
    by (simp add: n_def)
  with h(3) show ?thesis by blast
qed

text \<open>
  An entry under \<open>ma/1\<close> with one token, no tag, a breakdown and a story line passes every
  rule.
\<close>

theorem C7_movie_set_cardinality_witness:
  "auditHanziElement (js ''ma/1'')
     (Node (22920 # js '': ma1 | mother'')
        (Some [Node (breakdownMarker @ js '' female + horse'') None,
               Node (js ''A mother rides a horse.'') None]))
     = Finished []
   \<and> (\<exists>s. parseEntry (js ''ma/1'')
            (Node (22920 # js '': ma1 | mother'')
               (Some [Node (breakdownMarker @ js '' female + horse'') None,
                      Node (js ''A mother rides a horse.'') None]))
            = Inr s
          \<and> (1 < length (pinyinAndTones s)) = isMovieSetStory s)"
proof -
  have h: "auditHanziElement (js ''ma/1'')
     (Node (22920 # js '': ma1 | mother'')
        (Some [Node (breakdownMarker @ js '' female + horse'') None,
               Node (js ''A mother rides a horse.'') None]))
     = Finished []"
    by (simp add: entry_eval)
  from h C7_movie_set_cardinality[OF h] show ?thesis by (rule conjI)
qed

text \<open>
  C8. For every story entry that passes all validation rules: if it has the wheel tag, it
  has no breakdown (the field is unset or the empty string: the breakdown is empty); and if
  it has no wheel tag and its path is not \<open>(no pronunciation)\<close>, it has a breakdown that is
  not empty (and that has the form the breakdown rule asks for).
\<close>

theorem C8_wheel_exclusivity:
  assumes "auditHanziElement path e = Finished []"
  shows "\<exists>s. parseEntry path e = Inr s
           \<and> (isWheelStory s \<longrightarrow> hanziBreakdown s = None \<or> hanziBreakdown s = Some [])
           \<and> (\<not> isWheelStory s \<and> path \<noteq> noPronunciation \<longrightarrow>
                (\<exists>b. hanziBreakdown s = Some b \<and> b \<noteq> [] \<and> breakdownPattern b))"
proof -
  from assms obtain s where h: "parseEntry path e = Inr s" "contentRules path s = Finished []"
    by (rule clean_audit)
  from h(2) have "wheelStoryValid path s = Passed" "hanziBreakdownValid path s = Passed"
    by (simp_all add: contentRules_def check_Nil)
  then have "(isWheelStory s \<longrightarrow> hanziBreakdown s = None \<or> hanziBreakdown s = Some [])
           \<and> (\<not> isWheelStory s \<and> path \<noteq> noPronunciation \<longrightarrow>
                (\<exists>b. hanziBreakdown s = Some b \<and> b \<noteq> [] \<and> breakdownPattern b))"
    by (auto simp: wheelStoryValid_def hanziBreakdownValid_def truthy_def
          split: if_splits option.splits)
  with h(1) show ?thesis by blast
qed

text \<open>
  An entry under \<open>lun/2\<close> with the wheel tag, no breakdown and a first story line that
  mentions the wheel passes every rule.
\<close>

theorem C8_wheel_exclusivity_witness:
  "auditHanziElement (js ''lun/2'')
     (Node (36718 # js '': lun2 | wheel | '' @ wheelTag)
        (Some [Node (js ''Wheel party!'') None]))
     = Finished []
   \<and> (\<exists>s. parseEntry (js ''lun/2'')
            (Node (36718 # js '': lun2 | wheel | '' @ wheelTag)
               (Some [Node (js ''Wheel party!'') None]))
            = Inr s
          \<and> (isWheelStory s \<longrightarrow> hanziBreakdown s = None \<or> hanziBreakdown s = Some [])
          \<and> (\<not> isWheelStory s \<and> js ''lun/2'' \<noteq> noPronunciation \<longrightarrow>
               (\<exists>b. hanziBreakdown s = Some b \<and> b \<noteq> [] \<and> breakdownPattern b)))"
proof -
  have h: "auditHanziElement (js ''lun/2'')
     (Node (36718 # js '': lun2 | wheel | '' @ wheelTag)
        (Some [Node (js ''Wheel party!'') None]))
     = Finished []"
    by (simp add: entry_eval)
  from h C8_wheel_exclusivity[OF h] show ?thesis by (rule conjI)
qed

section \<open>The anchor of the document\<close>

lemma entryLevel_not_document: "entryLevel m \<Longrightarrow> m \<noteq> FirstPronunciationError"
  by (cases m) auto

lemma element_messages:
  "list_all (\<lambda>m. m \<noteq> FirstPronunciationError) (messages (auditHanziElement path e))"
  using audit_messages_entryLevel[of path e]
  by (auto simp: list_all_iff dest: entryLevel_not_document)

lemma tone_messages:
  "list_all (\<lambda>m. m \<noteq> FirstPronunciationError) (messages (auditToneElement syllable child))"
  by (auto simp: auditToneElement_def split: option.splits
        intro!: forEach_messages element_messages)

lemma pronunciation_messages:
  "list_all (\<lambda>m. m \<noteq> FirstPronunciationError) (messages (auditPronunciationElement p))"
  by (auto simp: auditPronunciationElement_def split: option.splits
        intro!: forEach_messages tone_messages)

lemma anchored_not_aborted:
  assumes "includesStr (nodeText c) noPronunciation"
  shows "list_all (\<lambda>m. m \<noteq> FirstPronunciationError)
           (messages (auditHanziStories (Node t (Some (a # b # c # groups)))))"
  using assms
  by (auto simp: auditHanziStories_def nthOpt_def split: option.splits
        intro!: andThen_messages forEach_messages pronunciation_messages element_messages)

text \<open>
  C5, as the claim states it, fails: the script asks that the text of the third child
  contains \<open>(no pronunciation)\<close>, not that it is this label. Here the third child has a
  longer text; the audit does not abort, and the entry under it is audited.
\<close>

theorem C5_anchor_text_only_contained:
  "nodeText (Node (js ''old (no pronunciation)'') (Some [Node (js ''bad'') None]))
     \<noteq> noPronunciation
   \<and> auditHanziStories
       (Node (js ''HANZI'')
          (Some [Node (js ''a'') None, Node (js ''b'') None,
                 Node (js ''old (no pronunciation)'') (Some [Node (js ''bad'') None])]))
     = Finished [HeaderError noPronunciation (js ''bad'')]"
  by (simp add: auditHanziStories_def entry_eval)

text \<open>
  C5, amended. For a root with at least three children, the audit aborts the entire
  document, with the one top-level structural error and no entry audited, if and only if
  the text of the root's child at index 2 does not contain \<open>(no pronunciation)\<close>; the
  root's children at indices 0 and 1 are skipped unconditionally: the audit does not
  depend on them.
\<close>

theorem C5_document_abort:
  "(auditHanziStories (Node t (Some (a # b # c # groups))) = Finished [FirstPronunciationError])
     = (\<not> includesStr (nodeText c) noPronunciation)
   \<and> auditHanziStories (Node t (Some (a # b # c # groups)))
       = auditHanziStories (Node t' (Some (a' # b' # c # groups)))"
proof -
  have "auditHanziStories (Node t (Some (a # b # c # groups)))
          \<noteq> Finished [FirstPronunciationError]"
    if "includesStr (nodeText c) noPronunciation"
    using anchored_not_aborted[OF that, of t a b groups] by auto
  moreover have "auditHanziStories (Node t (Some (a # b # c # groups)))
          = Finished [FirstPronunciationError]"
    if "\<not> includesStr (nodeText c) noPronunciation"
    using that by (simp add: auditHanziStories_def nthOpt_def)
  moreover have "auditHanziStories (Node t (Some (a # b # c # groups)))
       = auditHanziStories (Node t' (Some (a' # b' # c # groups)))"
    by (simp add: auditHanziStories_def nthOpt_def eval_nat_numeral split: option.splits)
  ultimately show ?thesis by blast
qed

section \<open>The tuples of the loader\<close>











section \<open>The entries under the anchor\<close>

text \<open>
  C1, as the claim states it, fails: the first-syllable rule has no exemption. Under the
  path \<open>(no pronunciation)\<close> it compares the first token with the path itself, and the
  entry of scenario B, whose first token is \<open>de\<close>, is rejected by this rule.
\<close>

theorem C1_scenario_B_rejected:
  "auditHanziElement noPronunciation (Node (30340 # js '': de | of'') None)
   = Finished [EntryError SyllableMatch noPronunciation [30340]]"
  by (simp add: entry_eval)

text \<open>
  C1, amended. A story entry whose first pronunciation token is the sentinel, with the
  text made of the hanzi 0x7684, the pronunciation \<open>(no pronunciation)\<close> and the translation
  \<open>of\<close>, located under the path \<open>(no pronunciation)\<close> and having no child nodes, is accepted
  as valid: the first-syllable rule passes because the first token is the path, and under
  this path the must-have-children check, the must-have-breakdown check and the
  at-least-one-story-line check pass for an entry without children (the exemption of the
  root group), as they do for every story without breakdown and story lines.
\<close>

theorem C1_root_entry_with_sentinel_accepted:
  "auditHanziElement noPronunciation
     (Node (30340 # js '': (no pronunciation) | of'') None) = Finished []
   \<and> (\<exists>s. parseEntry noPronunciation
            (Node (30340 # js '': (no pronunciation) | of'') None) = Inr s
          \<and> matchingPinyinSyllable noPronunciation s = Passed
          \<and> hanziBreakdown s = None \<and> storyLines s = []
          \<and> hanziBreakdownValid noPronunciation s = Passed
          \<and> atLeastOneStoryLine noPronunciation s = Passed)
   \<and> fst (parseChildren noPronunciation (Node label None) story) = Passed
   \<and> hanziBreakdownValid noPronunciation (story\<lparr>hanziBreakdown := None\<rparr>) = Passed
   \<and> atLeastOneStoryLine noPronunciation (story\<lparr>storyLines := []\<rparr>) = Passed"
  by (simp add: entry_eval)

section \<open>The eligible-syllable rule on the paths of the traversal\<close>

text \<open>
  The traversal audits an entry under \<open>(no pronunciation)\<close> or under a syllable, a slash and
  a tone digit. The first-syllable rule makes the first token of the entry equal to the path
  without its slash, so the token is the sentinel or ends with the tone digit, and no
  alternative of the anchored pattern matches it: for an entry with the pouring-rain tag
  that reaches the eligible-syllable rule, the rule fails, whatever its syllable.
\<close>

lemma whitelist_last_letter:
  "pouringRainSyllable t \<Longrightarrow> t \<noteq> [] \<and> \<not> isToneDigit (last t) \<and> t \<noteq> noPronunciation"
  by (auto simp: pouringRainSyllable_def pouringRainSyllables_def js_def isToneDigit_def
        noPronunciation_def)

lemma parseStory_first_token:
  "parseStory path e s0 = Inr s \<Longrightarrow>
     nthOpt (pinyinAndTones s) 0 = Some (filter (\<lambda>c. c \<noteq> slash) path)"
  by (auto simp: parseStory_def Let_def guard_Inr matchingPinyinSyllable_def
        split: if_splits option.splits prod.splits dest!: parseChildren_keeps)

lemma tone_path_token:
  assumes "toneLevelPattern tone"
  shows "filter (\<lambda>c. c \<noteq> slash) (syllable @ [slash] @ tone) \<noteq> []
         \<and> isToneDigit (last (filter (\<lambda>c. c \<noteq> slash) (syllable @ [slash] @ tone)))"
proof -
  from assms obtain d where "tone = [d]" "isToneDigit d"
    by (auto simp: toneLevelPattern_def split: list.splits)
  then show ?thesis by (auto simp: isToneDigit_def slash_def)
qed

lemma pouring_rain_rule_fails:
  assumes "path = noPronunciation
           \<or> (\<exists>syllable tone. path = syllable @ [slash] @ tone \<and> toneLevelPattern tone)"
    and "parseEntry path e = Inr s" and "isPouringRainStory s"
  shows "pouringRainStoryMustHaveEligibleSyllable path s
           = Failed (EntryError PouringRainEligible path (hanzi s))"
proof -
  from assms(2) obtain s0 where "parseStory path e s0 = Inr s"
    by (auto simp: parseEntry_def split: sum.splits)
  from parseStory_first_token[OF this]
  have tok: "nthOpt (pinyinAndTones s) 0 = Some (filter (\<lambda>c. c \<noteq> slash) path)" .
  have "\<not> pouringRainSyllable (filter (\<lambda>c. c \<noteq> slash) path)"
  proof
    assume w: "pouringRainSyllable (filter (\<lambda>c. c \<noteq> slash) path)"
    from assms(1) show False
    proof
      assume "path = noPronunciation"
      then have "filter (\<lambda>c. c \<noteq> slash) path = noPronunciation"
        by (simp add: noPronunciation_def js_def slash_def)
      with whitelist_last_letter[OF w] show False by simp
    next
      assume "\<exists>syllable tone. path = syllable @ [slash] @ tone \<and> toneLevelPattern tone"
      then obtain syllable tone where "path = syllable @ [slash] @ tone" "toneLevelPattern tone"
        by blast
      with tone_path_token[of tone syllable] whitelist_last_letter[OF w] show False by simp
    qed
  qed
  with tok assms(3) show ?thesis
    by (simp add: pouringRainStoryMustHaveEligibleSyllable_def toStringArg_def)
qed

lemma pouring_rain_story_never_accepted:
  assumes "path = noPronunciation
           \<or> (\<exists>syllable tone. path = syllable @ [slash] @ tone \<and> toneLevelPattern tone)"
    and "parseEntry path e = Inr s" and "isPouringRainStory s"
  shows "auditHanziElement path e \<noteq> Finished []"
proof
  assume "auditHanziElement path e = Finished []"
  with assms(2) have "contentRules path s = Finished []"
    by (simp add: auditHanziElement_def)
  then have "pouringRainStoryMustHaveEligibleSyllable path s = Passed"
    by (simp add: contentRules_def check_Nil)
  with pouring_rain_rule_fails[OF assms] show False by simp
qed

end
